theory Spec2Isabelle
  imports Main
begin

section \<open>The stat vector and the deltas\<close>

text \<open>
  A row of the \<^verbatim>\<open>Stats\<close> table (server.js, the \<^verbatim>\<open>CREATE TABLE Stats\<close>
  statement): the session it belongs to and eight \<^verbatim>\<open>INTEGER\<close> columns. The
  handlers read such a row with \<^verbatim>\<open>getStatsStmt.get\<close>, pass it to
  \<^verbatim>\<open>applyDeltas\<close> and write the result back with \<^verbatim>\<open>upsertStats.run\<close>.
  The column \<^verbatim>\<open>power\<close> is the field \<open>power_stat\<close>, since \<open>power\<close> is
  the exponentiation of HOL.
\<close>

record stats =
  sessionId :: string
  approval :: int
  stability :: int
  economy :: int
  justice :: int
  power_stat :: int
  chaos :: int
  laws :: int
  crises :: int

text \<open>
  A delta is a JavaScript object literal read by key (\<^verbatim>\<open>deltas[key]\<close>,
  \<^verbatim>\<open>deltas.chaos\<close>); a key that is absent reads as \<^verbatim>\<open>undefined\<close>, which
  is \<open>None\<close> here. The values are the integers of the tables.
\<close>

type_synonym deltas = "string \<rightharpoonup> int"

text \<open>\<^verbatim>\<open>DEFAULT_STATS\<close>, with the session id that \<^verbatim>\<open>/session/start\<close> adds.\<close>

definition DEFAULT_STATS :: "string \<Rightarrow> stats" where
  "DEFAULT_STATS sid =
     \<lparr>sessionId = sid, approval = 50, stability = 50, economy = 50, justice = 50,
      power_stat = 50, chaos = 0, laws = 0, crises = 0\<rparr>"

text \<open>
  The five keys of the loop \<^verbatim>\<open>for (const key of ['approval','stability','economy',
  'justice','power'])\<close>, with the read \<^verbatim>\<open>s[key]\<close> and the write
  \<^verbatim>\<open>s[key] = v\<close> of each.
\<close>

datatype axis = Approval | Stability | Economy | Justice | Power

fun axis_key :: "axis \<Rightarrow> string" where
  "axis_key Approval = ''approval''"
| "axis_key Stability = ''stability''"
| "axis_key Economy = ''economy''"
| "axis_key Justice = ''justice''"
| "axis_key Power = ''power''"

fun get_axis :: "stats \<Rightarrow> axis \<Rightarrow> int" where
  "get_axis s Approval = approval s"
| "get_axis s Stability = stability s"
| "get_axis s Economy = economy s"
| "get_axis s Justice = justice s"
| "get_axis s Power = power_stat s"

fun set_axis :: "stats \<Rightarrow> axis \<Rightarrow> int \<Rightarrow> stats" where
  "set_axis s Approval v = s\<lparr>approval := v\<rparr>"
| "set_axis s Stability v = s\<lparr>stability := v\<rparr>"
| "set_axis s Economy v = s\<lparr>economy := v\<rparr>"
| "set_axis s Justice v = s\<lparr>justice := v\<rparr>"
| "set_axis s Power v = s\<lparr>power_stat := v\<rparr>"

definition bounded_axes :: "axis list" where
  "bounded_axes = [Approval, Stability, Economy, Justice, Power]"

text \<open>
  \<^verbatim>\<open>x || 0\<close> on an integer column: \<^verbatim>\<open>0\<close> is falsy and gives the right
  operand, every other integer is truthy and gives itself.
\<close>

definition or_zero :: "int \<Rightarrow> int" where
  "or_zero x = (if x = 0 then 0 else x)"

section \<open>The delta applicator\<close>

text \<open>
  One turn of the loop of \<^verbatim>\<open>applyDeltas\<close>:
  \<^verbatim>\<open>if (deltas[key] !== undefined) s[key] = Math.max(0, Math.min(100, s[key] + deltas[key]))\<close>.
\<close>

definition clamp_step :: "deltas \<Rightarrow> stats \<Rightarrow> axis \<Rightarrow> stats" where
  "clamp_step deltas s ax =
     (case deltas (axis_key ax) of
        None \<Rightarrow> s
      | Some d \<Rightarrow> set_axis s ax (max 0 (min 100 (get_axis s ax + d))))"

text \<open>
  \<^verbatim>\<open>applyDeltas(stats, deltas)\<close>: the contents of the object it returns. \<open>s0\<close> is
  the copy \<^verbatim>\<open>Object.assign({}, stats)\<close>; the loop, then chaos floored at 0 and not
  capped, then the two counters, which are added and not clamped.
\<close>

definition applyDeltas :: "stats \<Rightarrow> deltas \<Rightarrow> stats" where
  "applyDeltas stats deltas =
     (let s0 = stats;
          s1 = foldl (clamp_step deltas) s0 bounded_axes;
          s2 = (case deltas ''chaos'' of
                  None \<Rightarrow> s1
                | Some d \<Rightarrow> s1\<lparr>chaos := max 0 (chaos s1 + d)\<rparr>);
          s3 = (case deltas ''laws'' of
                  None \<Rightarrow> s2
                | Some d \<Rightarrow> s2\<lparr>laws := or_zero (laws s2) + d\<rparr>);
          s4 = (case deltas ''crises'' of
                  None \<Rightarrow> s3
                | Some d \<Rightarrow> s3\<lparr>crises := or_zero (crises s3) + d\<rparr>)
      in s4)"

text \<open>The invariants of the data model: a bounded axis is in \<open>[0, 100]\<close>, chaos is not negative.\<close>

definition in_range :: "int \<Rightarrow> bool" where
  "in_range x = (0 \<le> x \<and> x \<le> 100)"

definition bounded_ok :: "stats \<Rightarrow> bool" where
  "bounded_ok s = list_all (\<lambda>ax. in_range (get_axis s ax)) bounded_axes"

definition chaos_ok :: "stats \<Rightarrow> bool" where
  "chaos_ok s = (0 \<le> chaos s)"

text \<open>
  The same function on a store of objects, to speak of the object it is given. A
  reference is an index into the list of allocated objects. \<^verbatim>\<open>Object.assign({}, stats)\<close>
  allocates the copy \<open>s\<close> at the end of the store; every assignment of the body
  (\<^verbatim>\<open>s[key] = ...\<close>, \<^verbatim>\<open>s.chaos = ...\<close>, \<^verbatim>\<open>s.laws = ...\<close>,
  \<^verbatim>\<open>s.crises = ...\<close>) writes the object at \<open>s\<close>; the reference \<open>s\<close> is returned.
\<close>

type_synonym store = "stats list"

definition applyDeltas_store :: "store \<Rightarrow> nat \<Rightarrow> deltas \<Rightarrow> nat \<times> store" where
  "applyDeltas_store h stats_ref deltas =
     (let s = length h;
          h0 = h @ [h ! stats_ref];
          h1 = foldl (\<lambda>hp ax. hp[s := clamp_step deltas (hp ! s) ax]) h0 bounded_axes;
          h2 = (case deltas ''chaos'' of
                  None \<Rightarrow> h1
                | Some d \<Rightarrow> h1[s := (h1 ! s)\<lparr>chaos := max 0 (chaos (h1 ! s) + d)\<rparr>]);
          h3 = (case deltas ''laws'' of
                  None \<Rightarrow> h2
                | Some d \<Rightarrow> h2[s := (h2 ! s)\<lparr>laws := or_zero (laws (h2 ! s)) + d\<rparr>]);
          h4 = (case deltas ''crises'' of
                  None \<Rightarrow> h3
                | Some d \<Rightarrow> h3[s := (h3 ! s)\<lparr>crises := or_zero (crises (h3 ! s)) + d\<rparr>])
      in (s, h4))"

section \<open>The threshold evaluators\<close>

text \<open>
  \<^verbatim>\<open>checkGameOver\<close> returns \<^verbatim>\<open>{ gameOver: true, reason: '...' }\<close> or
  \<^verbatim>\<open>{ gameOver: false }\<close>; the absent \<^verbatim>\<open>reason\<close> is \<open>None\<close>.
\<close>

record game_over_result =
  gameOver :: bool
  reason :: "string option"

definition checkGameOver :: "stats \<Rightarrow> int \<Rightarrow> game_over_result" where
  "checkGameOver s chaosThreshold =
     (if chaos s \<ge> chaosThreshold then \<lparr>gameOver = True, reason = Some ''Chaos exceeded threshold''\<rparr>
      else if stability s \<le> 0 then \<lparr>gameOver = True, reason = Some ''Stability collapsed''\<rparr>
      else if approval s \<le> 0 then \<lparr>gameOver = True, reason = Some ''Approval vanished''\<rparr>
      else \<lparr>gameOver = False, reason = None\<rparr>)"

text \<open>
  \<^verbatim>\<open>Math.round(n / 2)\<close> for an integer \<open>n\<close>: \<^verbatim>\<open>Math.round\<close> rounds to the
  nearest integer and a half towards plus infinity (\<^verbatim>\<open>Math.round(2.5)\<close> is 3,
  \<^verbatim>\<open>Math.round(-2.5)\<close> is -2), which on halves of integers is \<open>(n + 1) div 2\<close>
  with the flooring division of HOL.
\<close>

definition round_half :: "int \<Rightarrow> int" where
  "round_half n = (n + 1) div 2"

record rebellion_result =
  rebellion :: bool
  intensity :: "int option"

definition checkRebellionChance :: "stats \<Rightarrow> rebellion_result" where
  "checkRebellionChance s =
     (if chaos s > 65 \<or> stability s < 20
      then \<lparr>rebellion = True,
            intensity = Some (min 100 (round_half (chaos s + (50 - stability s))))\<rparr>
      else if approval s < 15
      then \<lparr>rebellion = True, intensity = Some (max 10 (40 - approval s))\<rparr>
      else \<lparr>rebellion = False, intensity = None\<rparr>)"

text \<open>The clamp the specification writes for the first intensity, for comparison.\<close>

definition clamp :: "int \<Rightarrow> int \<Rightarrow> int \<Rightarrow> int" where
  "clamp x lo hi = max lo (min hi x)"

section \<open>The delta tables\<close>

text \<open>
  A table is an object literal whose own properties are the action keys. Reading
  \<^verbatim>\<open>TABLE[k]\<close> finds an own property, or else a property inherited from
  \<^verbatim>\<open>Object.prototype\<close> (the prototype of every object literal), or else
  \<^verbatim>\<open>undefined\<close>. The inherited values are built-in functions, and for
  \<^verbatim>\<open>__proto__\<close> the prototype object itself: all of them truthy, none with a
  property named after a stat.
\<close>

datatype 'a property = Own 'a | Inherited | Undefined

definition Object_prototype_names :: "string list" where
  "Object_prototype_names =
     [''constructor'', ''__proto__'', ''hasOwnProperty'', ''isPrototypeOf'',
      ''propertyIsEnumerable'', ''toLocaleString'', ''toString'', ''valueOf'',
      ''__defineGetter__'', ''__defineSetter__'', ''__lookupGetter__'', ''__lookupSetter__'']"

definition get_property :: "(string \<times> 'a) list \<Rightarrow> string \<Rightarrow> 'a property" where
  "get_property obj k =
     (case map_of obj k of
        Some v \<Rightarrow> Own v
      | None \<Rightarrow> if k \<in> set Object_prototype_names then Inherited else Undefined)"

definition CRISIS_DELTAS :: "(string \<times> deltas) list" where
  "CRISIS_DELTAS =
     [(''pandemic'', map_of [(''approval'', -6), (''stability'', -10), (''economy'', -12), (''justice'', 0), (''power'', 5), (''chaos'', 8)]),
      (''economic_shock'', map_of [(''approval'', -8), (''stability'', -6), (''economy'', -15), (''justice'', 0), (''power'', 3), (''chaos'', 6)]),
      (''diplomatic_row'', map_of [(''approval'', -4), (''stability'', -3), (''economy'', -2), (''power'', -1), (''chaos'', 2)])]"

definition COSMIC_DELTAS :: "(string \<times> deltas) list" where
  "COSMIC_DELTAS =
     [(''probe'', map_of [(''approval'', -2), (''chaos'', 10), (''power'', 3)]),
      (''entreat'', map_of [(''approval'', 4), (''chaos'', -6), (''stability'', 2)]),
      (''distort'', map_of [(''approval'', -20), (''chaos'', 25), (''stability'', -15), (''power'', 20)])]"

text \<open>
  \<^verbatim>\<open>TABLE[k] || fallback\<close>, as the delta that \<^verbatim>\<open>applyDeltas\<close> and
  \<^verbatim>\<open>Object.assign\<close> then see: an own entry is itself; an inherited built-in is
  truthy, so the fallback is not taken, and it has no stat property, so it reads as the
  empty delta; only \<^verbatim>\<open>undefined\<close> gives the fallback.
\<close>

definition lookup_or :: "(string \<times> deltas) list \<Rightarrow> string \<Rightarrow> deltas \<Rightarrow> deltas" where
  "lookup_or table k fallback =
     (case get_property table k of
        Own d \<Rightarrow> d
      | Inherited \<Rightarrow> Map.empty
      | Undefined \<Rightarrow> fallback)"

section \<open>The database\<close>

text \<open>
  The rows of the tables \<^verbatim>\<open>Achievement\<close> and \<^verbatim>\<open>TimelineEvent\<close>. Their
  columns \<^verbatim>\<open>id\<close> (a fresh \<^verbatim>\<open>uuidv4()\<close>) and \<^verbatim>\<open>at\<close> (the clock) are
  written and never read by the code below, and are left out. \<^verbatim>\<open>Achievement\<close> has
  no key but \<^verbatim>\<open>id\<close>, so it is a list of rows, in insertion order.
\<close>

record achievement =
  a_sessionId :: string
  a_key :: string
  a_description :: string

record timeline_event =
  t_sessionId :: string
  t_type :: string
  t_description :: string

text \<open>
  \<^verbatim>\<open>Stats\<close> has the primary key \<^verbatim>\<open>sessionId\<close>; of \<^verbatim>\<open>Session\<close> the
  handlers read the column \<^verbatim>\<open>chaosThreshold\<close> only.
\<close>

record db =
  stats_table :: "string \<rightharpoonup> stats"
  session_table :: "string \<rightharpoonup> int"
  achievement_table :: "achievement list"
  timeline_table :: "timeline_event list"

definition upsertStats :: "db \<Rightarrow> stats \<Rightarrow> db" where
  "upsertStats d s = d\<lparr>stats_table := (stats_table d)(sessionId s \<mapsto> s)\<rparr>"

definition insertAchievement :: "db \<Rightarrow> achievement \<Rightarrow> db" where
  "insertAchievement d a = d\<lparr>achievement_table := achievement_table d @ [a]\<rparr>"

definition pushTimeline :: "db \<Rightarrow> string \<Rightarrow> string \<Rightarrow> string \<Rightarrow> db" where
  "pushTimeline d sid ty desc =
     d\<lparr>timeline_table := timeline_table d @
          [\<lparr>t_sessionId = sid, t_type = ty, t_description = desc\<rparr>]\<rparr>"

section \<open>The achievement evaluator\<close>

record rule =
  key :: string
  condition :: "stats \<Rightarrow> bool"
  description :: string

definition ACHIEVEMENT_RULES :: "rule list" where
  "ACHIEVEMENT_RULES =
     [\<lparr>key = ''stable_mandate'', condition = (\<lambda>s. stability s \<ge> 90), description = ''Stability >= 90''\<rparr>,
      \<lparr>key = ''economic_wizard'', condition = (\<lambda>s. economy s \<ge> 90), description = ''Economy >= 90''\<rparr>,
      \<lparr>key = ''chaos_master'', condition = (\<lambda>s. chaos s \<ge> 80), description = ''Chaos >= 80''\<rparr>,
      \<lparr>key = ''iron_fist'', condition = (\<lambda>s. power_stat s \<ge> 90 \<and> justice s < 30),
        description = ''Power >= 90 while Justice < 30''\<rparr>]"

text \<open>
  The loop of \<^verbatim>\<open>evaluateAchievements\<close> over the rules. \<open>existing\<close> is read once,
  before the loop; the state of the loop is \<open>found\<close> and the database.
\<close>

fun evaluate_loop ::
  "string list \<Rightarrow> string \<Rightarrow> stats \<Rightarrow> rule list \<Rightarrow> achievement list \<times> db \<Rightarrow> achievement list \<times> db"
where
  "evaluate_loop existing sid s [] (found, d) = (found, d)"
| "evaluate_loop existing sid s (r # rules) (found, d) =
     (if key r \<notin> set existing \<and> condition r s
      then let ach = \<lparr>a_sessionId = sid, a_key = key r, a_description = description r\<rparr>;
               d1 = insertAchievement d ach;
               d2 = pushTimeline d1 sid ''achievement''
                      (''Achievement unlocked: '' @ key r @ '' - '' @ description r)
           in evaluate_loop existing sid s rules (found @ [ach], d2)
      else evaluate_loop existing sid s rules (found, d))"

text \<open>\<^verbatim>\<open>SELECT key FROM Achievement WHERE sessionId = ?\<close>, mapped to the keys.\<close>

definition existing_keys :: "db \<Rightarrow> string \<Rightarrow> string list" where
  "existing_keys d sid = map a_key (filter (\<lambda>a. a_sessionId a = sid) (achievement_table d))"

definition evaluateAchievements :: "db \<Rightarrow> string \<Rightarrow> stats \<Rightarrow> achievement list \<times> db" where
  "evaluateAchievements d sid s =
     evaluate_loop (existing_keys d sid) sid s ACHIEVEMENT_RULES ([], d)"

text \<open>
  The keys that the loop fires, as a function of the keys read into \<open>existing\<close> and of
  the vector: the rules whose key is not in \<open>existing\<close> and whose condition holds, in
  the order of the table.
\<close>

definition fired_keys :: "string list \<Rightarrow> stats \<Rightarrow> string list" where
  "fired_keys unlocked s =
     map key (filter (\<lambda>r. key r \<notin> set unlocked \<and> condition r s) ACHIEVEMENT_RULES)"

section \<open>The request handlers\<close>

text \<open>
  A handler answers with \<^verbatim>\<open>res.status(c).json({ error: m })\<close> or with
  \<^verbatim>\<open>res.json({ stats, achievements, rebellion, gameOver })\<close>, and leaves a database.
  The handlers modelled are \<^verbatim>\<open>/session/start\<close>, \<^verbatim>\<open>/crises/resolve\<close>,
  \<^verbatim>\<open>/cosmic/act\<close> and \<^verbatim>\<open>/achievement/unlock\<close>, on requests whose fields
  are strings; \<^verbatim>\<open>!field\<close> holds of the empty string, which also stands for a
  field that the body does not have. They are the handlers of a fresh process: the
  built-in objects are as the language makes them. (\<^verbatim>\<open>/laws/enforce\<close>, which is
  not modelled, assigns \<^verbatim>\<open>deltas.laws = 1\<close> to the object its lookup returned; when
  that is a built-in, the property stays for the life of the process, and a later delta
  that inherits or copies it counts a law. No run below follows such a request.)
\<close>

record action_result =
  res_stats :: stats
  res_achievements :: "achievement list"
  res_rebellion :: rebellion_result
  res_gameOver :: game_over_result

datatype response = Error nat string | Json action_result

fun is_Json :: "response \<Rightarrow> bool" where
  "is_Json (Json r) = True"
| "is_Json (Error c m) = False"

fun json_stats :: "response \<Rightarrow> stats option" where
  "json_stats (Json r) = Some (res_stats r)"
| "json_stats (Error c m) = None"

text \<open>
  \<^verbatim>\<open>db.prepare(`SELECT chaosThreshold FROM Session WHERE id = ?`).get(sessionId)?.chaosThreshold || 100\<close>:
  no row, or a threshold of 0, gives 100.
\<close>

definition chaosThreshold_of :: "db \<Rightarrow> string \<Rightarrow> int" where
  "chaosThreshold_of d sid =
     (case session_table d sid of None \<Rightarrow> 100 | Some t \<Rightarrow> if t = 0 then 100 else t)"

text \<open>\<^verbatim>\<open>description || dflt\<close>.\<close>

definition or_default :: "string \<Rightarrow> string \<Rightarrow> string" where
  "or_default s dflt = (if s = [] then dflt else s)"

text \<open>
  The end that the action handlers share, word for word: evaluate the achievements, the
  rebellion and the game over on the new vector, and answer.
\<close>

definition evaluate_and_respond :: "db \<Rightarrow> string \<Rightarrow> stats \<Rightarrow> response \<times> db" where
  "evaluate_and_respond d sid newStats =
     (let (achievements, d1) = evaluateAchievements d sid newStats;
          reb = checkRebellionChance newStats;
          chaosThreshold = chaosThreshold_of d1 sid;
          over = checkGameOver newStats chaosThreshold
      in (Json \<lparr>res_stats = newStats, res_achievements = achievements,
                 res_rebellion = reb, res_gameOver = over\<rparr>, d1))"

text \<open>
  \<^verbatim>\<open>POST /session/start\<close>, with the fresh \<^verbatim>\<open>uuidv4()\<close> given: the session
  row, the default vector and a timeline entry. The defaults of the body's fields are
  the caller's to fill in (\<^verbatim>\<open>chaosThreshold = 100\<close>).
\<close>

definition empty_db :: db where
  "empty_db = \<lparr>stats_table = Map.empty, session_table = Map.empty,
                achievement_table = [], timeline_table = []\<rparr>"

definition sessionStart :: "db \<Rightarrow> string \<Rightarrow> string \<Rightarrow> string \<Rightarrow> string \<Rightarrow> int \<Rightarrow> stats \<times> db" where
  "sessionStart d sid playerName country difficulty chaosThreshold =
     (let d1 = d\<lparr>session_table := (session_table d)(sid \<mapsto> chaosThreshold)\<rparr>;
          baseStats = DEFAULT_STATS sid;
          d2 = upsertStats d1 baseStats;
          d3 = pushTimeline d2 sid ''system''
                 (''Session started for '' @ playerName @ '' in '' @ country @ '' ('' @ difficulty @ '')'')
      in (baseStats, d3))"

text \<open>
  \<^verbatim>\<open>POST /crises/resolve\<close>. The modifier of the method, as the list of its keys
  and values in the order of the literal.
\<close>

definition methodMod :: "string \<Rightarrow> (string \<times> int) list" where
  "methodMod method =
     (if method = ''bold'' then [(''power'', 5), (''chaos'', 4), (''approval'', -3)]
      else if method = ''measured'' then [(''stability'', 4), (''approval'', 2), (''economy'', -3)]
      else if method = ''ignore'' then [(''approval'', -10), (''stability'', -12), (''chaos'', 10)]
      else [])"

text \<open>
  \<^verbatim>\<open>for (const k of Object.keys(methodMod)) merged[k] = (merged[k] || 0) + methodMod[k]\<close>.
\<close>

definition merge_step :: "deltas \<Rightarrow> string \<times> int \<Rightarrow> deltas" where
  "merge_step merged kv =
     merged(fst kv \<mapsto> (case merged (fst kv) of None \<Rightarrow> 0 | Some x \<Rightarrow> or_zero x) + snd kv)"

definition crisis_deltas :: "string \<Rightarrow> string \<Rightarrow> deltas" where
  "crisis_deltas crisisKey method =
     (let base = lookup_or CRISIS_DELTAS crisisKey [''approval'' \<mapsto> -2];
          merged = foldl merge_step base (methodMod method)
      in merged(''crises'' \<mapsto> 1))"

definition crisesResolve :: "db \<Rightarrow> string \<Rightarrow> string \<Rightarrow> string \<Rightarrow> string \<Rightarrow> response \<times> db" where
  "crisesResolve d sid crisisKey method desc =
     (if sid = [] \<or> crisisKey = [] then (Error 400 ''sessionId and crisisKey required'', d)
      else case stats_table d sid of
        None \<Rightarrow> (Error 404 ''session not found'', d)
      | Some statsRow \<Rightarrow>
          let merged = crisis_deltas crisisKey method;
              newStats = applyDeltas statsRow merged;
              d1 = upsertStats d newStats;
              d2 = pushTimeline d1 sid ''crisis''
                     (or_default desc (''Resolved crisis '' @ crisisKey @ '' by '' @ or_default method ''default''))
          in evaluate_and_respond d2 sid newStats)"

text \<open>
  \<^verbatim>\<open>POST /cosmic/act\<close>. After the update, \<^verbatim>\<open>distort\<close> inserts the achievement
  \<^verbatim>\<open>distorted_realm\<close> with no test; then the rules are evaluated.
\<close>

definition cosmic_deltas :: "string \<Rightarrow> deltas" where
  "cosmic_deltas actKey = lookup_or COSMIC_DELTAS actKey [''chaos'' \<mapsto> 5]"

definition cosmicAct :: "db \<Rightarrow> string \<Rightarrow> string \<Rightarrow> string \<Rightarrow> response \<times> db" where
  "cosmicAct d sid actKey desc =
     (if sid = [] \<or> actKey = [] then (Error 400 ''sessionId and actKey required'', d)
      else case stats_table d sid of
        None \<Rightarrow> (Error 404 ''session not found'', d)
      | Some statsRow \<Rightarrow>
          let deltas = cosmic_deltas actKey;
              newStats = applyDeltas statsRow deltas;
              d1 = upsertStats d newStats;
              d2 = pushTimeline d1 sid ''cosmic'' (or_default desc (''Cosmic act: '' @ actKey));
              d3 = (if actKey = ''distort''
                    then pushTimeline
                           (insertAchievement d2
                              \<lparr>a_sessionId = sid, a_key = ''distorted_realm'',
                                a_description = ''Distorted the fabric of state''\<rparr>)
                           sid ''achievement'' ''Achievement unlocked: distorted_realm''
                    else d2)
          in evaluate_and_respond d3 sid newStats)"

text \<open>
  \<^verbatim>\<open>POST /achievement/unlock\<close>: the row is inserted with no look at the table. The
  answer is the row.
\<close>

definition achievementUnlock :: "db \<Rightarrow> string \<Rightarrow> string \<Rightarrow> string \<Rightarrow> (string + achievement) \<times> db" where
  "achievementUnlock d sid k desc =
     (if sid = [] \<or> k = [] then (Inl ''sessionId and key required'', d)
      else let ach = \<lparr>a_sessionId = sid, a_key = k, a_description = or_default desc k\<rparr>;
               d1 = insertAchievement d ach;
               d2 = pushTimeline d1 sid ''achievement'' (''Manually unlocked: '' @ k)
           in (Inr ach, d2))"

text \<open>The pairs that the specification wants to be unique in the achievement table.\<close>

definition achievement_pairs :: "db \<Rightarrow> (string \<times> string) list" where
  "achievement_pairs d = map (\<lambda>a. (a_sessionId a, a_key a)) (achievement_table d)"

section \<open>The archive encoder\<close>

text \<open>
  \<^verbatim>\<open>compressToGlyphs(obj)\<close> calls three library functions in a row,
  \<^verbatim>\<open>JSON.stringify\<close>, \<^verbatim>\<open>zlib.deflateSync\<close> (on the UTF-8 bytes) and
  \<^verbatim>\<open>toString('base64')\<close>, and then runs its own loop over the characters of the
  base64 string. The library functions are not code of this repository: each is a
  parameter, a relation between an input and the outputs a call may give. The glyph set
  is a parameter as well: a fixed string literal of the source, which is not empty, so
  the index \<open>ch mod length glyphSet\<close> is within it. A character of the base64 string
  is its code, \<^verbatim>\<open>b64.charCodeAt(i)\<close>. Further down, the parameters are given
  their values for objects with integer members.
\<close>

definition glyph_of :: "'g list \<Rightarrow> nat \<Rightarrow> 'g" where
  "glyph_of glyphSet ch = glyphSet ! (ch mod length glyphSet)"

text \<open>
  \<^verbatim>\<open>for (let i = 0; i < b64.length; i++) glyphs += glyphSet[b64.charCodeAt(i) % glyphSet.length]\<close>,
  on the characters still to read and the glyphs so far.
\<close>

fun glyph_loop :: "'g list \<Rightarrow> nat list \<Rightarrow> 'g list \<Rightarrow> 'g list" where
  "glyph_loop glyphSet [] glyphs = glyphs"
| "glyph_loop glyphSet (ch # rest) glyphs = glyph_loop glyphSet rest (glyphs @ [glyph_of glyphSet ch])"

inductive compressToGlyphs ::
  "('p \<Rightarrow> string \<Rightarrow> bool) \<Rightarrow> (string \<Rightarrow> nat list \<Rightarrow> bool) \<Rightarrow> (nat list \<Rightarrow> nat list \<Rightarrow> bool) \<Rightarrow>
   'g list \<Rightarrow> 'p \<Rightarrow> 'g list \<Rightarrow> bool"
  for stringify deflateSync toBase64 glyphSet
where
  encode:
    "stringify obj json \<Longrightarrow> deflateSync json deflated \<Longrightarrow> toBase64 deflated b64 \<Longrightarrow>
     compressToGlyphs stringify deflateSync toBase64 glyphSet obj (glyph_loop glyphSet b64 [])"

text \<open>A call is deterministic when equal inputs can only give equal outputs.\<close>

definition deterministic :: "('a \<Rightarrow> 'b \<Rightarrow> bool) \<Rightarrow> bool" where
  "deterministic call = (\<forall>x y z. call x y \<longrightarrow> call x z \<longrightarrow> y = z)"

text \<open>
  The glyph set of the source: the UTF-16 code units of the string literal
  \<^verbatim>\<open>glyphSet\<close> of \<^verbatim>\<open>compressToGlyphs\<close>, as the file has it. There are 87 of
  them, so \<^verbatim>\<open>glyphSet.length\<close> is 87; a glyph is a code unit.
\<close>

definition glyphSet_literal :: "nat list" where
  "glyphSet_literal =
     [8218, 263, 252, 8218, 250, 182, 8218, 250, 223, 8218,
      250, 310, 8218, 250, 8706, 8218, 250, 8721, 8218, 250,
      322, 8218, 250, 315, 8218, 250, 316, 8218, 250, 318,
      8218, 250, 313, 8218, 250, 314, 8218, 279, 214, 8218,
      279, 318, 8218, 279, 302, 8218, 279, 322, 8218, 250,
      316, 8218, 282, 257, 8218, 282, 201, 8218, 282, 256,
      8218, 250, 325, 8218, 279, 244, 8218, 244, 220, 8218,
      244, 274, 8218, 244, 275, 8218, 244, 278, 8218, 244,
      243, 8218, 244, 279, 8218, 244, 244]"

text \<open>
  \<^verbatim>\<open>JSON.stringify\<close> on an object whose members are integers, the payload being the
  list of its members in the order the object enumerates them: the order of insertion,
  for keys that are not array indices. The text is in UTF-8, as
  \<^verbatim>\<open>Buffer.from(json, 'utf8')\<close> reads it. A key is quoted as the language's
  \<^verbatim>\<open>QuoteJSONString\<close> does; an integer is printed in decimal.
\<close>

definition hex_digit :: "nat \<Rightarrow> char" where
  "hex_digit n = ''0123456789abcdef'' ! n"

definition quote_char :: "char \<Rightarrow> string" where
  "quote_char c =
     (if c = CHR 0x22 then [CHR 0x5C, CHR 0x22]
      else if c = CHR 0x5C then [CHR 0x5C, CHR 0x5C]
      else if c = CHR 0x08 then [CHR 0x5C, CHR ''b'']
      else if c = CHR 0x0C then [CHR 0x5C, CHR ''f'']
      else if c = CHR 0x0A then [CHR 0x5C, CHR ''n'']
      else if c = CHR 0x0D then [CHR 0x5C, CHR ''r'']
      else if c = CHR 0x09 then [CHR 0x5C, CHR ''t'']
      else if (of_char c :: nat) < 32
      then [CHR 0x5C, CHR ''u'', CHR ''0'', CHR ''0'',
            hex_digit (of_char c div 16), hex_digit (of_char c mod 16)]
      else [c])"

definition JSON_quote :: "string \<Rightarrow> string" where
  "JSON_quote s = [CHR 0x22] @ concat (map quote_char s) @ [CHR 0x22]"

fun decimal :: "nat \<Rightarrow> string" where
  "decimal n =
     (if n < 10 then [''0123456789'' ! n]
      else decimal (n div 10) @ [''0123456789'' ! (n mod 10)])"

definition Number_toString :: "int \<Rightarrow> string" where
  "Number_toString n = (if n < 0 then ''-'' @ decimal (nat (- n)) else decimal (nat n))"

fun join_commas :: "string list \<Rightarrow> string" where
  "join_commas [] = []"
| "join_commas [x] = x"
| "join_commas (x # y # ys) = x @ '','' @ join_commas (y # ys)"

definition member_text :: "string \<times> int \<Rightarrow> string" where
  "member_text m = JSON_quote (fst m) @ '':'' @ Number_toString (snd m)"

text \<open>
  The lists that are the members of an object as it enumerates them: no key twice, no
  key that begins with a digit (an array index would be enumerated first, whenever it
  was inserted), and every value an integer that a number holds exactly.
\<close>

definition object_members :: "(string \<times> int) list \<Rightarrow> bool" where
  "object_members members =
     (distinct (map fst members) \<and>
      list_all (\<lambda>m. case fst m of [] \<Rightarrow> True | c # cs \<Rightarrow> c \<notin> set ''0123456789'') members \<and>
      list_all (\<lambda>m. \<bar>snd m\<bar> \<le> 2 ^ 53) members)"

definition JSON_stringify_object :: "(string \<times> int) list \<Rightarrow> string \<Rightarrow> bool" where
  "JSON_stringify_object members json =
     (object_members members \<and>
      json = ''{'' @ join_commas (map member_text members) @ ''}'')"

text \<open>
  Two such objects are structurally identical when they have the same members, whatever
  the order their keys were inserted in.
\<close>

definition structurally_identical :: "(string \<times> int) list \<Rightarrow> (string \<times> int) list \<Rightarrow> bool" where
  "structurally_identical p q = (object_members p \<and> object_members q \<and> set p = set q)"

text \<open>
  \<^verbatim>\<open>toString('base64')\<close> of a buffer: the bytes three at a time, each group as
  four characters of the base64 alphabet, the last group padded with \<^verbatim>\<open>=\<close>; the
  result as the character codes.
\<close>

definition base64_chars :: "nat list" where
  "base64_chars =
     map of_char ''ABCDEFGHIJKLMNOPQRSTUVWXYZabcdefghijklmnopqrstuvwxyz0123456789+/''"

fun base64 :: "nat list \<Rightarrow> nat list" where
  "base64 [] = []"
| "base64 [a] = [base64_chars ! (a div 4), base64_chars ! ((a mod 4) * 16), 61, 61]"
| "base64 [a, b] =
     [base64_chars ! (a div 4), base64_chars ! ((a mod 4) * 16 + b div 16),
      base64_chars ! ((b mod 16) * 4), 61]"
| "base64 (a # b # c # bytes) =
     [base64_chars ! (a div 4), base64_chars ! ((a mod 4) * 16 + b div 16),
      base64_chars ! ((b mod 16) * 4 + c div 64), base64_chars ! (c mod 64)] @ base64 bytes"

definition Buffer_toBase64 :: "nat list \<Rightarrow> nat list \<Rightarrow> bool" where
  "Buffer_toBase64 bytes b64 = (list_all (\<lambda>b. b < 256) bytes \<and> b64 = base64 bytes)"

text \<open>
  \<^verbatim>\<open>zlib.deflateSync\<close> at the two texts \<^verbatim>\<open>{"b":1,"a":2}\<close> and
  \<^verbatim>\<open>{"a":2,"b":1}\<close>, and nowhere else: the zlib stream of each, which is the
  header \<^verbatim>\<open>78 9C\<close>, one final block that holds the 13 bytes as literals in the
  fixed Huffman code, and the Adler-32 of the text.
\<close>

definition deflateSync_two_texts :: "string \<Rightarrow> nat list \<Rightarrow> bool" where
  "deflateSync_two_texts json deflated =
     ((json = [CHR ''{'', CHR 0x22, CHR ''b'', CHR 0x22, CHR '':'', CHR ''1'', CHR '','',
               CHR 0x22, CHR ''a'', CHR 0x22, CHR '':'', CHR ''2'', CHR ''}''] \<and>
       deflated =
         [120, 156, 171, 86, 74, 82, 178, 50, 212, 81, 74,
          84, 178, 50, 170, 5, 0, 22, 252, 3, 71]) \<or>
      (json = [CHR ''{'', CHR 0x22, CHR ''a'', CHR 0x22, CHR '':'', CHR ''2'', CHR '','',
               CHR 0x22, CHR ''b'', CHR 0x22, CHR '':'', CHR ''1'', CHR ''}''] \<and>
       deflated =
         [120, 156, 171, 86, 74, 84, 178, 50, 210, 81, 74,
          82, 178, 50, 172, 5, 0, 22, 252, 3, 71]))"

section \<open>Facts about the applicator\<close>

lemma get_set_axis: "get_axis (set_axis s k v) k' = (if k = k' then v else get_axis s k')"
  by (cases k; cases k') simp_all

lemma other_set_axis:
  "chaos (set_axis s k v) = chaos s" "laws (set_axis s k v) = laws s"
  "crises (set_axis s k v) = crises s" "sessionId (set_axis s k v) = sessionId s"
  by (cases k; simp)+

lemma get_axis_other_update:
  "get_axis (s\<lparr>chaos := c\<rparr>) k = get_axis s k"
  "get_axis (s\<lparr>laws := c\<rparr>) k = get_axis s k"
  "get_axis (s\<lparr>crises := c\<rparr>) k = get_axis s k"
  by (cases k; simp)+

lemma get_clamp_step:
  "get_axis (clamp_step deltas s k) k' =
     (if k = k' then (case deltas (axis_key k) of
                        None \<Rightarrow> get_axis s k
                      | Some d \<Rightarrow> max 0 (min 100 (get_axis s k + d)))
      else get_axis s k')"
  by (simp add: clamp_step_def get_set_axis split: option.splits)

lemma other_clamp_step:
  "chaos (clamp_step deltas s k) = chaos s" "laws (clamp_step deltas s k) = laws s"
  "crises (clamp_step deltas s k) = crises s" "sessionId (clamp_step deltas s k) = sessionId s"
  by (simp_all add: clamp_step_def other_set_axis split: option.splits)

lemma get_axis_loop:
  "get_axis (foldl (clamp_step deltas) s bounded_axes) k =
     (case deltas (axis_key k) of
        None \<Rightarrow> get_axis s k
      | Some d \<Rightarrow> max 0 (min 100 (get_axis s k + d)))"
  by (cases k)
     (simp_all add: bounded_axes_def get_clamp_step del: get_axis.simps split: option.split)

lemma other_loop:
  "chaos (foldl (clamp_step deltas) s bounded_axes) = chaos s"
  "laws (foldl (clamp_step deltas) s bounded_axes) = laws s"
  "crises (foldl (clamp_step deltas) s bounded_axes) = crises s"
  "sessionId (foldl (clamp_step deltas) s bounded_axes) = sessionId s"
  by (simp_all add: bounded_axes_def other_clamp_step)

lemma get_axis_applyDeltas:
  "get_axis (applyDeltas s deltas) k =
     (case deltas (axis_key k) of
        None \<Rightarrow> get_axis s k
      | Some d \<Rightarrow> max 0 (min 100 (get_axis s k + d)))"
proof -
  have "get_axis (applyDeltas s deltas) k = get_axis (foldl (clamp_step deltas) s bounded_axes) k"
    by (simp add: applyDeltas_def Let_def get_axis_other_update split: option.split)
  then show ?thesis by (simp only: get_axis_loop)
qed

lemma chaos_applyDeltas:
  "chaos (applyDeltas s deltas) =
     (case deltas ''chaos'' of None \<Rightarrow> chaos s | Some d \<Rightarrow> max 0 (chaos s + d))"
  by (simp add: applyDeltas_def Let_def other_loop split: option.split)

lemma laws_applyDeltas:
  "laws (applyDeltas s deltas) =
     (case deltas ''laws'' of None \<Rightarrow> laws s | Some d \<Rightarrow> or_zero (laws s) + d)"
  by (simp add: applyDeltas_def Let_def other_loop split: option.split)

lemma crises_applyDeltas:
  "crises (applyDeltas s deltas) =
     (case deltas ''crises'' of None \<Rightarrow> crises s | Some d \<Rightarrow> or_zero (crises s) + d)"
  by (simp add: applyDeltas_def Let_def other_loop split: option.split)

lemma sessionId_applyDeltas: "sessionId (applyDeltas s deltas) = sessionId s"
  by (simp add: applyDeltas_def Let_def other_loop split: option.split)

lemma bounded_ok_iff: "bounded_ok s \<longleftrightarrow> (\<forall>k. in_range (get_axis s k))"
proof
  assume a: "bounded_ok s"
  show "\<forall>k. in_range (get_axis s k)"
  proof
    fix k
    from a show "in_range (get_axis s k)"
      by (cases k) (simp_all add: bounded_ok_def bounded_axes_def)
  qed
next
  assume "\<forall>k. in_range (get_axis s k)"
  then show "bounded_ok s"
    by (simp add: bounded_ok_def bounded_axes_def)
qed

lemma in_range_clamped: "in_range (max 0 (min 100 x))"
  by (simp add: in_range_def)

text \<open>
  An axis that the delta writes ends in \<open>[0, 100]\<close> whatever the vector held before,
  and chaos, when written, ends at 0 or above.
\<close>

lemma applyDeltas_written_axis:
  "deltas (axis_key k) = Some d \<Longrightarrow> in_range (get_axis (applyDeltas v deltas) k)"
  by (simp add: get_axis_applyDeltas in_range_clamped)

lemma applyDeltas_written_chaos:
  "deltas ''chaos'' = Some d \<Longrightarrow> chaos_ok (applyDeltas v deltas)"
  by (simp add: chaos_applyDeltas chaos_ok_def)

lemma applyDeltas_bounded_ok:
  assumes "bounded_ok v"
  shows "bounded_ok (applyDeltas v deltas)"
  unfolding bounded_ok_iff
proof
  fix k
  from assms have "in_range (get_axis v k)" by (simp add: bounded_ok_iff)
  then show "in_range (get_axis (applyDeltas v deltas) k)"
    by (simp add: get_axis_applyDeltas in_range_clamped split: option.split)
qed

text \<open>
  Every vector that the applicator can make of the default vector, by any sequence of
  deltas, keeps the invariants.
\<close>

lemma reachable_vectors_ok:
  "bounded_ok (foldl applyDeltas (DEFAULT_STATS sid) ds) \<and>
   chaos_ok (foldl applyDeltas (DEFAULT_STATS sid) ds)"
proof -
  have "bounded_ok v \<and> chaos_ok v \<Longrightarrow>
        bounded_ok (foldl applyDeltas v ds) \<and> chaos_ok (foldl applyDeltas v ds)" for v
  proof (induction ds arbitrary: v)
    case Nil
    then show ?case by simp
  next
    case (Cons d ds)
    have "chaos_ok (applyDeltas v d)"
      using Cons.prems by (simp add: chaos_ok_def chaos_applyDeltas split: option.split)
    with Cons.prems have "bounded_ok (applyDeltas v d) \<and> chaos_ok (applyDeltas v d)"
      by (simp add: applyDeltas_bounded_ok)
    then show ?case using Cons.IH by simp
  qed
  moreover have "bounded_ok (DEFAULT_STATS sid) \<and> chaos_ok (DEFAULT_STATS sid)"
    by (simp add: bounded_ok_def bounded_axes_def in_range_def chaos_ok_def DEFAULT_STATS_def)
  ultimately show ?thesis by blast
qed

text \<open>
  C1. The result of the delta applicator keeps the invariants of the stat vector: from a
  vector whose bounded axes are in \<open>[0, 100]\<close> and whose chaos is not negative, and any
  delta, each of approval, stability, economy, justice and power of the result is in
  \<open>[0, 100]\<close>, and the chaos of the result is not negative. No cap is applied to chaos:
  when the delta has no chaos it is the chaos of the input, and otherwise it is exactly
  the sum floored at 0, however large.
\<close>

theorem applyDeltas_bounds:
  assumes "bounded_ok v" and "chaos_ok v"
  shows "in_range (get_axis (applyDeltas v deltas) ax) \<and>
         0 \<le> chaos (applyDeltas v deltas) \<and>
         chaos (applyDeltas v deltas) =
           (case deltas ''chaos'' of None \<Rightarrow> chaos v | Some d \<Rightarrow> max 0 (chaos v + d))"
proof -
  from assms(1) have "bounded_ok (applyDeltas v deltas)"
    by (rule applyDeltas_bounded_ok)
  then have "in_range (get_axis (applyDeltas v deltas) ax)"
    by (simp add: bounded_ok_iff)
  moreover from assms(2) have "0 \<le> chaos (applyDeltas v deltas)"
    by (simp add: chaos_ok_def chaos_applyDeltas split: option.split)
  ultimately show ?thesis
    by (simp add: chaos_applyDeltas)
qed

theorem applyDeltas_bounds_witness:
  "bounded_ok ((DEFAULT_STATS ''s1'')\<lparr>chaos := 98\<rparr>) \<and>
   chaos_ok ((DEFAULT_STATS ''s1'')\<lparr>chaos := 98\<rparr>) \<and>
   in_range (get_axis (applyDeltas ((DEFAULT_STATS ''s1'')\<lparr>chaos := 98\<rparr>)
      (map_of [(''approval'', -60), (''power'', 70), (''chaos'', 25)])) Power) \<and>
   get_axis (applyDeltas ((DEFAULT_STATS ''s1'')\<lparr>chaos := 98\<rparr>)
      (map_of [(''approval'', -60), (''power'', 70), (''chaos'', 25)])) Power = 100 \<and>
   approval (applyDeltas ((DEFAULT_STATS ''s1'')\<lparr>chaos := 98\<rparr>)
      (map_of [(''approval'', -60), (''power'', 70), (''chaos'', 25)])) = 0 \<and>
   chaos (applyDeltas ((DEFAULT_STATS ''s1'')\<lparr>chaos := 98\<rparr>)
      (map_of [(''approval'', -60), (''power'', 70), (''chaos'', 25)])) = 123"
proof -
  have b: "bounded_ok ((DEFAULT_STATS ''s1'')\<lparr>chaos := 98\<rparr>)"
    by (simp add: bounded_ok_def bounded_axes_def in_range_def DEFAULT_STATS_def)
  have c: "chaos_ok ((DEFAULT_STATS ''s1'')\<lparr>chaos := 98\<rparr>)"
    by (simp add: chaos_ok_def)
  have p: "get_axis (applyDeltas ((DEFAULT_STATS ''s1'')\<lparr>chaos := 98\<rparr>)
      (map_of [(''approval'', -60), (''power'', 70), (''chaos'', 25)])) Power = 100"
    by (simp add: get_axis_applyDeltas DEFAULT_STATS_def del: get_axis.simps) simp
  have a: "get_axis (applyDeltas ((DEFAULT_STATS ''s1'')\<lparr>chaos := 98\<rparr>)
      (map_of [(''approval'', -60), (''power'', 70), (''chaos'', 25)])) Approval = 0"
    by (simp add: get_axis_applyDeltas DEFAULT_STATS_def del: get_axis.simps) simp
  from b c p a
    applyDeltas_bounds [OF b c, of "map_of [(''approval'', -60), (''power'', 70), (''chaos'', 25)]" Power]
  show ?thesis by (simp add: DEFAULT_STATS_def)
qed

section \<open>The applicator on the store\<close>

lemma loop_store:
  "foldl (\<lambda>hp ax. hp[length h := clamp_step deltas (hp ! length h) ax]) (h @ [v]) axs =
     h @ [foldl (clamp_step deltas) v axs]"
  by (induction axs arbitrary: v) simp_all

text \<open>
  The store after the call is the store before it with one object more, whose contents
  are \<open>applyDeltas\<close> of the contents of the argument.
\<close>

lemma applyDeltas_store_eq:
  "applyDeltas_store h r deltas = (length h, h @ [applyDeltas (h ! r) deltas])"
  by (simp add: applyDeltas_store_def applyDeltas_def Let_def loop_store split: option.split)

text \<open>
  C8. The delta applicator is pure and total. Given a reference to an allocated vector
  and any delta (any combination of present and absent keys), the call returns a
  reference to an object of the new store; that object is a new one, not the input; the
  input vector, and every other object allocated before, holds after the call what it
  held before; and every field of the result whose key is absent from the delta
  (a bounded axis, chaos, laws, crises) has the value it has in the input.
\<close>

theorem applyDeltas_store_pure:
  assumes "stats_ref < length h"
  shows "fst (applyDeltas_store h stats_ref deltas) < length (snd (applyDeltas_store h stats_ref deltas)) \<and>
         fst (applyDeltas_store h stats_ref deltas) \<noteq> stats_ref \<and>
         snd (applyDeltas_store h stats_ref deltas) ! stats_ref = h ! stats_ref \<and>
         take (length h) (snd (applyDeltas_store h stats_ref deltas)) = h \<and>
         snd (applyDeltas_store h stats_ref deltas) ! fst (applyDeltas_store h stats_ref deltas)
           = applyDeltas (h ! stats_ref) deltas \<and>
         (deltas (axis_key ax) = None \<longrightarrow>
            get_axis (applyDeltas (h ! stats_ref) deltas) ax = get_axis (h ! stats_ref) ax) \<and>
         (deltas ''chaos'' = None \<longrightarrow>
            chaos (applyDeltas (h ! stats_ref) deltas) = chaos (h ! stats_ref)) \<and>
         (deltas ''laws'' = None \<longrightarrow>
            laws (applyDeltas (h ! stats_ref) deltas) = laws (h ! stats_ref)) \<and>
         (deltas ''crises'' = None \<longrightarrow>
            crises (applyDeltas (h ! stats_ref) deltas) = crises (h ! stats_ref)) \<and>
         sessionId (applyDeltas (h ! stats_ref) deltas) = sessionId (h ! stats_ref)"
  using assms
  by (simp add: applyDeltas_store_eq nth_append get_axis_applyDeltas chaos_applyDeltas
        laws_applyDeltas crises_applyDeltas sessionId_applyDeltas)

theorem applyDeltas_store_pure_witness:
  "(0::nat) < length [DEFAULT_STATS ''s1''] \<and>
   applyDeltas_store [DEFAULT_STATS ''s1''] 0 (map_of [(''approval'', -10), (''chaos'', 5), (''laws'', 1)])
     = (1, [DEFAULT_STATS ''s1'',
            (DEFAULT_STATS ''s1'')\<lparr>approval := 40, chaos := 5, laws := 1\<rparr>]) \<and>
   get_axis (applyDeltas ([DEFAULT_STATS ''s1''] ! 0)
      (map_of [(''approval'', -10), (''chaos'', 5), (''laws'', 1)])) Economy = 50 \<and>
   crises (applyDeltas ([DEFAULT_STATS ''s1''] ! 0)
      (map_of [(''approval'', -10), (''chaos'', 5), (''laws'', 1)])) = 0"
proof -
  have l: "(0::nat) < length [DEFAULT_STATS ''s1'']" by simp
  have e: "applyDeltas (DEFAULT_STATS ''s1'') (map_of [(''approval'', -10), (''chaos'', 5), (''laws'', 1)])
    = (DEFAULT_STATS ''s1'')\<lparr>approval := 40, chaos := 5, laws := 1\<rparr>"
    by (simp add: applyDeltas_def Let_def bounded_axes_def clamp_step_def DEFAULT_STATS_def or_zero_def)
  from l e
    applyDeltas_store_pure [OF l, of "map_of [(''approval'', -10), (''chaos'', 5), (''laws'', 1)]" Economy]
  show ?thesis
    by (simp add: applyDeltas_store_eq DEFAULT_STATS_def)
qed

section \<open>Facts about the threshold evaluators\<close>

text \<open>
  C2. \<open>checkGameOver\<close> reports over exactly when chaos is at or above the threshold, or
  stability is at or below 0, or approval is at or below 0; the reason is that of the
  first of the three tests that holds, in this order; so a vector with chaos at or above
  the threshold and stability at or below 0 gets the chaos reason and not the stability
  reason.
\<close>

theorem checkGameOver_first_match:
  "gameOver (checkGameOver v t) = (chaos v \<ge> t \<or> stability v \<le> 0 \<or> approval v \<le> 0) \<and>
   reason (checkGameOver v t) =
     (if chaos v \<ge> t then Some ''Chaos exceeded threshold''
      else if stability v \<le> 0 then Some ''Stability collapsed''
      else if approval v \<le> 0 then Some ''Approval vanished''
      else None) \<and>
   (chaos v \<ge> t \<and> stability v \<le> 0 \<longrightarrow>
      reason (checkGameOver v t) = Some ''Chaos exceeded threshold'' \<and>
      reason (checkGameOver v t) \<noteq> Some ''Stability collapsed'')"
  by (simp add: checkGameOver_def)

theorem checkGameOver_first_match_witness:
  "chaos ((DEFAULT_STATS ''s1'')\<lparr>chaos := 120, stability := 0\<rparr>) \<ge> 100 \<and>
   stability ((DEFAULT_STATS ''s1'')\<lparr>chaos := 120, stability := 0\<rparr>) \<le> 0 \<and>
   gameOver (checkGameOver ((DEFAULT_STATS ''s1'')\<lparr>chaos := 120, stability := 0\<rparr>) 100) \<and>
   reason (checkGameOver ((DEFAULT_STATS ''s1'')\<lparr>chaos := 120, stability := 0\<rparr>) 100)
     = Some ''Chaos exceeded threshold''"
  using checkGameOver_first_match [of "(DEFAULT_STATS ''s1'')\<lparr>chaos := 120, stability := 0\<rparr>" 100]
  by simp

lemma round_half_trigger_nonneg:
  assumes "chaos v > 65 \<or> stability v < 20" and "0 \<le> chaos v" and "stability v \<le> 100"
  shows "0 \<le> round_half (chaos v + (50 - stability v))"
  using assms unfolding round_half_def by linarith

text \<open>
  C3, as amended. \<open>checkRebellionChance\<close> reports active when chaos is above 65 or
  stability below 20, with the intensity \<open>min 100 (round ((chaos + (50 - stability)) / 2))\<close>,
  which is the clamp of the rounded value to \<open>[0, 100]\<close> for every vector with chaos not
  negative and stability at most 100; when neither of these holds and approval is below
  15 it reports active with the intensity \<open>max 10 (40 - approval)\<close>; and when none of the
  three holds it reports not active, with no intensity.
\<close>

theorem checkRebellionChance_branches:
  "(chaos v > 65 \<or> stability v < 20 \<longrightarrow>
      checkRebellionChance v =
        \<lparr>rebellion = True,
         intensity = Some (min 100 (round_half (chaos v + (50 - stability v))))\<rparr> \<and>
      (0 \<le> chaos v \<and> stability v \<le> 100 \<longrightarrow>
         min 100 (round_half (chaos v + (50 - stability v)))
           = clamp (round_half (chaos v + (50 - stability v))) 0 100)) \<and>
   (\<not> (chaos v > 65 \<or> stability v < 20) \<and> approval v < 15 \<longrightarrow>
      checkRebellionChance v = \<lparr>rebellion = True, intensity = Some (max 10 (40 - approval v))\<rparr>) \<and>
   (\<not> (chaos v > 65 \<or> stability v < 20) \<and> \<not> approval v < 15 \<longrightarrow>
      checkRebellionChance v = \<lparr>rebellion = False, intensity = None\<rparr>)"
proof -
  have "min 100 (round_half (chaos v + (50 - stability v)))
          = clamp (round_half (chaos v + (50 - stability v))) 0 100"
    if "chaos v > 65 \<or> stability v < 20" "0 \<le> chaos v" "stability v \<le> 100"
    using round_half_trigger_nonneg [OF that] by (simp add: clamp_def)
  then show ?thesis
    by (simp add: checkRebellionChance_def)
qed

theorem checkRebellionChance_branches_witness:
  "stability ((DEFAULT_STATS ''s1'')\<lparr>stability := 15\<rparr>) < 20 \<and>
   checkRebellionChance ((DEFAULT_STATS ''s1'')\<lparr>stability := 15\<rparr>)
     = \<lparr>rebellion = True, intensity = Some 18\<rparr> \<and>
   clamp (round_half (0 + (50 - 15))) 0 100 = 18 \<and>
   \<not> (chaos ((DEFAULT_STATS ''s1'')\<lparr>approval := 10\<rparr>) > 65 \<or>
       stability ((DEFAULT_STATS ''s1'')\<lparr>approval := 10\<rparr>) < 20) \<and>
   approval ((DEFAULT_STATS ''s1'')\<lparr>approval := 10\<rparr>) < 15 \<and>
   checkRebellionChance ((DEFAULT_STATS ''s1'')\<lparr>approval := 10\<rparr>)
     = \<lparr>rebellion = True, intensity = Some 30\<rparr> \<and>
   checkRebellionChance (DEFAULT_STATS ''s1'') = \<lparr>rebellion = False, intensity = None\<rparr>"
  using checkRebellionChance_branches [of "(DEFAULT_STATS ''s1'')\<lparr>stability := 15\<rparr>"]
        checkRebellionChance_branches [of "(DEFAULT_STATS ''s1'')\<lparr>approval := 10\<rparr>"]
        checkRebellionChance_branches [of "DEFAULT_STATS ''s1''"]
  by (simp add: DEFAULT_STATS_def round_half_def clamp_def)

text \<open>
  C3 as the specification states it fails: the vector with chaos 70, stability 50 and
  approval 10 is within the ranges of the data model and has approval below 15, and its
  intensity is 35, from the first formula, where \<open>max 10 (40 - approval)\<close> is 30.
\<close>

theorem checkRebellionChance_approval_counterexample:
  "\<not> (approval ((DEFAULT_STATS ''s1'')\<lparr>chaos := 70, approval := 10\<rparr>) < 15 \<longrightarrow>
        rebellion (checkRebellionChance ((DEFAULT_STATS ''s1'')\<lparr>chaos := 70, approval := 10\<rparr>)) \<and>
        intensity (checkRebellionChance ((DEFAULT_STATS ''s1'')\<lparr>chaos := 70, approval := 10\<rparr>))
          = Some (max 10 (40 - approval ((DEFAULT_STATS ''s1'')\<lparr>chaos := 70, approval := 10\<rparr>))))"
  by (simp add: checkRebellionChance_def DEFAULT_STATS_def round_half_def)

text \<open>
  C10. For every vector that satisfies both triggers, chaos above 65 or stability below
  20, and approval below 15, \<open>checkRebellionChance\<close> returns the intensity of the first
  formula, \<open>min 100 (round ((chaos + (50 - stability)) / 2))\<close>: the first branch returns
  before the approval test is reached.
\<close>

theorem checkRebellionChance_priority:
  assumes "chaos v > 65 \<or> stability v < 20" and "approval v < 15"
  shows "checkRebellionChance v =
           \<lparr>rebellion = True,
            intensity = Some (min 100 (round_half (chaos v + (50 - stability v))))\<rparr>"
  using assms by (simp add: checkRebellionChance_def)

theorem checkRebellionChance_priority_witness:
  "(chaos ((DEFAULT_STATS ''s1'')\<lparr>chaos := 70, approval := 10\<rparr>) > 65 \<or>
    stability ((DEFAULT_STATS ''s1'')\<lparr>chaos := 70, approval := 10\<rparr>) < 20) \<and>
   approval ((DEFAULT_STATS ''s1'')\<lparr>chaos := 70, approval := 10\<rparr>) < 15 \<and>
   checkRebellionChance ((DEFAULT_STATS ''s1'')\<lparr>chaos := 70, approval := 10\<rparr>)
     = \<lparr>rebellion = True, intensity = Some 35\<rparr> \<and>
   max 10 (40 - approval ((DEFAULT_STATS ''s1'')\<lparr>chaos := 70, approval := 10\<rparr>)) = 30"
proof -
  have a: "chaos ((DEFAULT_STATS ''s1'')\<lparr>chaos := 70, approval := 10\<rparr>) > 65 \<or>
           stability ((DEFAULT_STATS ''s1'')\<lparr>chaos := 70, approval := 10\<rparr>) < 20"
    by simp
  have b: "approval ((DEFAULT_STATS ''s1'')\<lparr>chaos := 70, approval := 10\<rparr>) < 15"
    by simp
  from a b checkRebellionChance_priority [OF a b] show ?thesis
    by (simp add: DEFAULT_STATS_def round_half_def)
qed

section \<open>Facts about the achievement evaluator\<close>

lemma evaluate_loop_found:
  "fst (evaluate_loop ex sid s rules (found, d)) =
     found @ map (\<lambda>r. \<lparr>a_sessionId = sid, a_key = key r, a_description = description r\<rparr>)
               (filter (\<lambda>r. key r \<notin> set ex \<and> condition r s) rules)"
  by (induction rules arbitrary: found d) (simp_all add: Let_def)

lemma evaluate_loop_achievements:
  "achievement_table (snd (evaluate_loop ex sid s rules (found, d))) =
     achievement_table d @
       map (\<lambda>r. \<lparr>a_sessionId = sid, a_key = key r, a_description = description r\<rparr>)
         (filter (\<lambda>r. key r \<notin> set ex \<and> condition r s) rules)"
  by (induction rules arbitrary: found d)
     (simp_all add: Let_def insertAchievement_def pushTimeline_def)

lemma evaluate_loop_tables:
  "stats_table (snd (evaluate_loop ex sid s rules (found, d))) = stats_table d"
  "session_table (snd (evaluate_loop ex sid s rules (found, d))) = session_table d"
  by (induction rules arbitrary: found d)
     (simp_all add: Let_def insertAchievement_def pushTimeline_def)

lemma fired_keys_found:
  "map a_key (fst (evaluateAchievements d sid s)) = fired_keys (existing_keys d sid) s"
  by (simp add: evaluateAchievements_def evaluate_loop_found fired_keys_def comp_def)

lemma existing_keys_after:
  "existing_keys (snd (evaluateAchievements d sid s)) sid =
     existing_keys d sid @ fired_keys (existing_keys d sid) s"
  by (simp add: evaluateAchievements_def evaluate_loop_achievements existing_keys_def
        fired_keys_def filter_map comp_def)

lemma fired_keys_again: "fired_keys (unlocked @ fired_keys unlocked s) s = []"
  by (auto simp: fired_keys_def filter_empty_conv)

lemma fired_keys_new: "set (fired_keys unlocked s) \<inter> set unlocked = {}"
  by (auto simp: fired_keys_def)

lemma evaluateAchievements_found_empty:
  "fst (evaluateAchievements d sid s) = [] \<longleftrightarrow> fired_keys (existing_keys d sid) s = []"
  using fired_keys_found [of d sid s] by (metis map_is_Nil_conv)

text \<open>
  C6. The achievement evaluator is idempotent. A second call of \<open>evaluateAchievements\<close>
  on the database that the first call left, for the same session and vector, finds
  nothing; the keys the first call returns are none of the keys unlocked before it. The
  same on the keys alone: evaluating over the keys unlocked together with the keys just
  fired gives the empty list, and the fired keys are disjoint from the unlocked ones.
\<close>

theorem evaluateAchievements_idempotent:
  "fst (evaluateAchievements (snd (evaluateAchievements d sid s)) sid s) = [] \<and>
   set (map a_key (fst (evaluateAchievements d sid s))) \<inter> set (existing_keys d sid) = {} \<and>
   fired_keys (unlocked @ fired_keys unlocked s) s = [] \<and>
   set (fired_keys unlocked s) \<inter> set unlocked = {}"
proof -
  have "fst (evaluateAchievements (snd (evaluateAchievements d sid s)) sid s) = []"
    by (simp only: evaluateAchievements_found_empty existing_keys_after fired_keys_again)
  moreover have "set (map a_key (fst (evaluateAchievements d sid s))) \<inter> set (existing_keys d sid) = {}"
    by (simp only: fired_keys_found fired_keys_new)
  ultimately show ?thesis
    by (simp only: fired_keys_again fired_keys_new simp_thms)
qed

theorem evaluateAchievements_idempotent_witness:
  "map a_key (fst (evaluateAchievements
      (snd (sessionStart empty_db ''s1'' ''Player'' ''Republic'' ''normal'' 100)) ''s1''
      ((DEFAULT_STATS ''s1'')\<lparr>stability := 95, chaos := 90\<rparr>)))
     = [''stable_mandate'', ''chaos_master''] \<and>
   fst (evaluateAchievements
      (snd (evaluateAchievements
         (snd (sessionStart empty_db ''s1'' ''Player'' ''Republic'' ''normal'' 100)) ''s1''
         ((DEFAULT_STATS ''s1'')\<lparr>stability := 95, chaos := 90\<rparr>)))
      ''s1'' ((DEFAULT_STATS ''s1'')\<lparr>stability := 95, chaos := 90\<rparr>)) = [] \<and>
   fired_keys ([''chaos_master''] @ fired_keys [''chaos_master''] ((DEFAULT_STATS ''s1'')\<lparr>stability := 95, chaos := 90\<rparr>))
      ((DEFAULT_STATS ''s1'')\<lparr>stability := 95, chaos := 90\<rparr>) = []"
proof -
  have "map a_key (fst (evaluateAchievements
      (snd (sessionStart empty_db ''s1'' ''Player'' ''Republic'' ''normal'' 100)) ''s1''
      ((DEFAULT_STATS ''s1'')\<lparr>stability := 95, chaos := 90\<rparr>)))
     = [''stable_mandate'', ''chaos_master'']"
    by code_simp
  with evaluateAchievements_idempotent
         [of "snd (sessionStart empty_db ''s1'' ''Player'' ''Republic'' ''normal'' 100)" "''s1''"
             "(DEFAULT_STATS ''s1'')\<lparr>stability := 95, chaos := 90\<rparr>" "[''chaos_master'']"]
  show ?thesis by simp
qed

text \<open>
  The evaluator adds no pair that the table has: a table with no pair twice has none
  twice after it.
\<close>

lemma ACHIEVEMENT_RULES_distinct: "distinct (map key ACHIEVEMENT_RULES)"
  by (simp add: ACHIEVEMENT_RULES_def)

lemma evaluateAchievements_keeps_distinct:
  assumes "distinct (achievement_pairs d)"
  shows "distinct (achievement_pairs (snd (evaluateAchievements d sid s)))"
proof -
  let ?new = "filter (\<lambda>r. key r \<notin> set (existing_keys d sid) \<and> condition r s) ACHIEVEMENT_RULES"
  have pairs: "achievement_pairs (snd (evaluateAchievements d sid s)) =
                 achievement_pairs d @ map (\<lambda>r. (sid, key r)) ?new"
    by (simp add: achievement_pairs_def evaluateAchievements_def evaluate_loop_achievements comp_def)
  have "distinct (map key ?new)"
    using ACHIEVEMENT_RULES_distinct by (rule distinct_map_filter)
  then have d2: "distinct (map (\<lambda>r. (sid, key r)) ?new)"
    by (simp add: distinct_map inj_on_def)
  have "set (achievement_pairs d) \<inter> set (map (\<lambda>r. (sid, key r)) ?new) = {}"
    by (force simp: achievement_pairs_def existing_keys_def image_iff)
  with assms d2 show ?thesis
    by (simp add: pairs)
qed

section \<open>Facts about the handlers\<close>

text \<open>
  C4, as amended. For every input vector that has a bounded field outside \<open>[0, 100]\<close>
  or a negative counter, the delta applicator raises no \<open>InvalidVectorState\<close> and
  rejects nothing: it returns a vector, in which a bounded field whose key the delta has
  is clamped into \<open>[0, 100]\<close> (a corrupt value is silently fixed), a bounded field whose
  key the delta lacks keeps the value it had (a corrupt value is passed on), and each
  counter is kept, or added to when the delta has its key, with no test of its sign.
\<close>

theorem applyDeltas_processes_invalid_vector:
  assumes "\<not> bounded_ok v \<or> laws v < 0 \<or> crises v < 0"
  shows "(case deltas (axis_key ax) of
            None \<Rightarrow> get_axis (applyDeltas v deltas) ax = get_axis v ax
          | Some d \<Rightarrow> in_range (get_axis (applyDeltas v deltas) ax)) \<and>
         laws (applyDeltas v deltas) =
           (case deltas ''laws'' of None \<Rightarrow> laws v | Some d \<Rightarrow> or_zero (laws v) + d) \<and>
         crises (applyDeltas v deltas) =
           (case deltas ''crises'' of None \<Rightarrow> crises v | Some d \<Rightarrow> or_zero (crises v) + d)"
proof -
  have "case deltas (axis_key ax) of
          None \<Rightarrow> get_axis (applyDeltas v deltas) ax = get_axis v ax
        | Some d \<Rightarrow> in_range (get_axis (applyDeltas v deltas) ax)"
    by (simp add: get_axis_applyDeltas in_range_clamped split: option.split)
  then show ?thesis
    by (simp only: laws_applyDeltas crises_applyDeltas simp_thms)
qed

theorem applyDeltas_processes_invalid_vector_witness:
  "\<not> bounded_ok ((DEFAULT_STATS ''s1'')\<lparr>approval := 150, economy := -7, laws := -3\<rparr>) \<and>
   laws ((DEFAULT_STATS ''s1'')\<lparr>approval := 150, economy := -7, laws := -3\<rparr>) < 0 \<and>
   approval (applyDeltas ((DEFAULT_STATS ''s1'')\<lparr>approval := 150, economy := -7, laws := -3\<rparr>)
      (map_of [(''approval'', -2), (''chaos'', 10), (''power'', 3)])) = 100 \<and>
   in_range (get_axis (applyDeltas ((DEFAULT_STATS ''s1'')\<lparr>approval := 150, economy := -7, laws := -3\<rparr>)
      (map_of [(''approval'', -2), (''chaos'', 10), (''power'', 3)])) Approval) \<and>
   get_axis (applyDeltas ((DEFAULT_STATS ''s1'')\<lparr>approval := 150, economy := -7, laws := -3\<rparr>)
      (map_of [(''approval'', -2), (''chaos'', 10), (''power'', 3)])) Economy = -7 \<and>
   laws (applyDeltas ((DEFAULT_STATS ''s1'')\<lparr>approval := 150, economy := -7, laws := -3\<rparr>)
      (map_of [(''approval'', -2), (''chaos'', 10), (''power'', 3)])) = -3"
proof -
  have n: "\<not> bounded_ok ((DEFAULT_STATS ''s1'')\<lparr>approval := 150, economy := -7, laws := -3\<rparr>)"
    by (simp add: bounded_ok_def bounded_axes_def in_range_def DEFAULT_STATS_def)
  then have h: "\<not> bounded_ok ((DEFAULT_STATS ''s1'')\<lparr>approval := 150, economy := -7, laws := -3\<rparr>) \<or>
    laws ((DEFAULT_STATS ''s1'')\<lparr>approval := 150, economy := -7, laws := -3\<rparr>) < 0 \<or>
    crises ((DEFAULT_STATS ''s1'')\<lparr>approval := 150, economy := -7, laws := -3\<rparr>) < 0"
    by (rule disjI1)
  have a: "approval (applyDeltas ((DEFAULT_STATS ''s1'')\<lparr>approval := 150, economy := -7, laws := -3\<rparr>)
      (map_of [(''approval'', -2), (''chaos'', 10), (''power'', 3)])) = 100"
    by code_simp
  from n a
    applyDeltas_processes_invalid_vector [OF h,
      of "map_of [(''approval'', -2), (''chaos'', 10), (''power'', 3)]" Approval]
    applyDeltas_processes_invalid_vector [OF h,
      of "map_of [(''approval'', -2), (''chaos'', 10), (''power'', 3)]" Economy]
  show ?thesis
    by (simp add: DEFAULT_STATS_def)
qed

text \<open>
  C4 as the specification states it fails. A session is started, and its row of
  \<open>Stats\<close> is then overwritten from outside with approval 150, economy -7 and laws -3.
  The cosmic act \<open>probe\<close> on that session is answered normally, and the row it stores
  has approval 100, economy -7 and laws -3, with chaos and power moved by the act.
\<close>

theorem invalid_vector_counterexample:
  "\<not> bounded_ok ((DEFAULT_STATS ''s1'')\<lparr>approval := 150, economy := -7, laws := -3\<rparr>) \<and>
   laws ((DEFAULT_STATS ''s1'')\<lparr>approval := 150, economy := -7, laws := -3\<rparr>) < 0 \<and>
   session_table
     (upsertStats (snd (sessionStart empty_db ''s1'' ''Player'' ''Republic'' ''normal'' 100))
        ((DEFAULT_STATS ''s1'')\<lparr>approval := 150, economy := -7, laws := -3\<rparr>)) ''s1'' = Some 100 \<and>
   is_Json (fst (cosmicAct
     (upsertStats (snd (sessionStart empty_db ''s1'' ''Player'' ''Republic'' ''normal'' 100))
        ((DEFAULT_STATS ''s1'')\<lparr>approval := 150, economy := -7, laws := -3\<rparr>))
     ''s1'' ''probe'' [])) \<and>
   stats_table (snd (cosmicAct
     (upsertStats (snd (sessionStart empty_db ''s1'' ''Player'' ''Republic'' ''normal'' 100))
        ((DEFAULT_STATS ''s1'')\<lparr>approval := 150, economy := -7, laws := -3\<rparr>))
     ''s1'' ''probe'' [])) ''s1''
     = Some \<lparr>sessionId = ''s1'', approval = 100, stability = 50, economy = -7, justice = 50,
             power_stat = 53, chaos = 10, laws = -3, crises = 0\<rparr>"
  by code_simp

text \<open>An action key that is no own key of its table and no name of a built-in gets the fallback.\<close>

lemma lookup_or_fallback:
  assumes "map_of table k = None" and "k \<notin> set Object_prototype_names"
  shows "lookup_or table k fallback = fallback"
  using assms by (simp add: lookup_or_def get_property_def)

lemma lookup_or_inherited:
  assumes "map_of table k = None" and "k \<in> set Object_prototype_names"
  shows "lookup_or table k fallback = Map.empty"
  using assms by (simp add: lookup_or_def get_property_def)

text \<open>
  C5, on the code. After \<^verbatim>\<open>/session/start\<close> the achievement table has no pair
  twice. Two \<open>distort\<close> acts on the session leave the pair of the session and
  \<open>distorted_realm\<close> twice in the table, and so do two manual unlocks of one key.
\<close>

theorem duplicate_achievements:
  "distinct (achievement_pairs (snd (sessionStart empty_db ''s1'' ''Player'' ''Republic'' ''normal'' 100))) \<and>
   achievement_pairs
     (snd (cosmicAct
        (snd (cosmicAct (snd (sessionStart empty_db ''s1'' ''Player'' ''Republic'' ''normal'' 100))
                ''s1'' ''distort'' []))
        ''s1'' ''distort'' []))
     = [(''s1'', ''distorted_realm''), (''s1'', ''distorted_realm'')] \<and>
   achievement_pairs
     (snd (achievementUnlock
        (snd (achievementUnlock (snd (sessionStart empty_db ''s1'' ''Player'' ''Republic'' ''normal'' 100))
                ''s1'' ''hero'' []))
        ''s1'' ''hero'' []))
     = [(''s1'', ''hero''), (''s1'', ''hero'')]"
  by code_simp

text \<open>
  C7, on the code. \<open>constructor\<close> is no key of \<open>COSMIC_DELTAS\<close> or of \<open>CRISIS_DELTAS\<close>. On
  the session just started, the cosmic act \<open>constructor\<close> is answered with the vector
  unchanged, where an act that is no key and no name of a built-in gets the fallback
  (chaos 5); the crisis \<open>constructor\<close> counts the crisis and leaves approval at 50, where
  the fallback takes it to 48.
\<close>

theorem inherited_key_skips_fallback:
  "map_of COSMIC_DELTAS ''constructor'' = None \<and>
   map_of CRISIS_DELTAS ''constructor'' = None \<and>
   json_stats (fst (cosmicAct (snd (sessionStart empty_db ''s1'' ''Player'' ''Republic'' ''normal'' 100))
      ''s1'' ''constructor'' []))
     = Some (DEFAULT_STATS ''s1'') \<and>
   json_stats (fst (cosmicAct (snd (sessionStart empty_db ''s1'' ''Player'' ''Republic'' ''normal'' 100))
      ''s1'' ''no_such_act'' []))
     = Some ((DEFAULT_STATS ''s1'')\<lparr>chaos := 5\<rparr>) \<and>
   json_stats (fst (crisesResolve (snd (sessionStart empty_db ''s1'' ''Player'' ''Republic'' ''normal'' 100))
      ''s1'' ''constructor'' [] []))
     = Some ((DEFAULT_STATS ''s1'')\<lparr>crises := 1\<rparr>) \<and>
   json_stats (fst (crisesResolve (snd (sessionStart empty_db ''s1'' ''Player'' ''Republic'' ''normal'' 100))
      ''s1'' ''no_such_crisis'' [] []))
     = Some ((DEFAULT_STATS ''s1'')\<lparr>approval := 48, crises := 1\<rparr>)"
  by code_simp

section \<open>Facts about the archive encoder\<close>

lemma glyph_loop_map: "glyph_loop glyphSet b64 glyphs = glyphs @ map (glyph_of glyphSet) b64"
  by (induction b64 arbitrary: glyphs) simp_all

lemma glyphSet_literal_length: "length glyphSet_literal = 87"
  by (simp add: glyphSet_literal_def)

lemma deterministic_JSON_stringify_object: "deterministic JSON_stringify_object"
  unfolding deterministic_def JSON_stringify_object_def by simp

lemma deterministic_Buffer_toBase64: "deterministic Buffer_toBase64"
  unfolding deterministic_def Buffer_toBase64_def by simp

lemma deterministic_deflateSync_two_texts: "deterministic deflateSync_two_texts"
  unfolding deterministic_def deflateSync_two_texts_def by auto

text \<open>
  The run of the encoder on the object \<^verbatim>\<open>{b: 1, a: 2}\<close>, step by step: the text
  \<^verbatim>\<open>{"b":1,"a":2}\<close>, its zlib stream, the base64 string
  \<^verbatim>\<open>eJyrVkpSsjLUUUpUsjKqBQAW/ANH\<close>, and the glyphs. The same for
  \<^verbatim>\<open>{a: 2, b: 1}\<close>, with the text \<^verbatim>\<open>{"a":2,"b":1}\<close> and the base64 string
  \<^verbatim>\<open>eJyrVkpUsjLSUUpSsjKsBQAW/ANH\<close>.
\<close>

lemma encode_b1_a2:
  "compressToGlyphs JSON_stringify_object deflateSync_two_texts Buffer_toBase64 glyphSet_literal
     [(''b'', 1), (''a'', 2)]
     [8706, 275, 250, 8218, 244, 322, 250, 279, 250, 250, 244, 244, 244, 244,
      250, 244, 250, 250, 8218, 316, 8218, 8218, 244, 8218, 322, 244, 8218, 8218]"
proof -
  have s: "JSON_stringify_object [(''b'', 1), (''a'', 2)]
             [CHR ''{'', CHR 0x22, CHR ''b'', CHR 0x22, CHR '':'', CHR ''1'', CHR '','',
              CHR 0x22, CHR ''a'', CHR 0x22, CHR '':'', CHR ''2'', CHR ''}'']"
    by code_simp
  have d: "deflateSync_two_texts
             [CHR ''{'', CHR 0x22, CHR ''b'', CHR 0x22, CHR '':'', CHR ''1'', CHR '','',
              CHR 0x22, CHR ''a'', CHR 0x22, CHR '':'', CHR ''2'', CHR ''}'']
             [120, 156, 171, 86, 74, 82, 178, 50, 212, 81, 74, 84, 178, 50, 170, 5, 0, 22, 252, 3, 71]"
    by (simp add: deflateSync_two_texts_def)
  have b: "Buffer_toBase64
             [120, 156, 171, 86, 74, 82, 178, 50, 212, 81, 74, 84, 178, 50, 170, 5, 0, 22, 252, 3, 71]
             [101, 74, 121, 114, 86, 107, 112, 83, 115, 106, 76, 85, 85, 85, 112, 85,
              115, 106, 75, 113, 66, 81, 65, 87, 47, 65, 78, 72]"
    by (simp add: Buffer_toBase64_def) (simp add: base64_chars_def)
  have g: "glyph_loop glyphSet_literal
             [101, 74, 121, 114, 86, 107, 112, 83, 115, 106, 76, 85, 85, 85, 112, 85,
              115, 106, 75, 113, 66, 81, 65, 87, 47, 65, 78, 72] []
           = [8706, 275, 250, 8218, 244, 322, 250, 279, 250, 250, 244, 244, 244, 244,
              250, 244, 250, 250, 8218, 316, 8218, 8218, 244, 8218, 322, 244, 8218, 8218]"
    by (simp add: glyph_loop_map glyph_of_def glyphSet_literal_length) (simp add: glyphSet_literal_def)
  from compressToGlyphs.encode
         [of JSON_stringify_object _ _ deflateSync_two_texts _ Buffer_toBase64 _ glyphSet_literal,
          OF s d b]
  show ?thesis
    by (simp only: g)
qed

lemma encode_a2_b1:
  "compressToGlyphs JSON_stringify_object deflateSync_two_texts Buffer_toBase64 glyphSet_literal
     [(''a'', 2), (''b'', 1)]
     [8706, 275, 250, 8218, 244, 322, 250, 244, 250, 250, 244, 279, 244, 244,
      250, 279, 250, 250, 8218, 250, 8218, 8218, 244, 8218, 322, 244, 8218, 8218]"
proof -
  have s: "JSON_stringify_object [(''a'', 2), (''b'', 1)]
             [CHR ''{'', CHR 0x22, CHR ''a'', CHR 0x22, CHR '':'', CHR ''2'', CHR '','',
              CHR 0x22, CHR ''b'', CHR 0x22, CHR '':'', CHR ''1'', CHR ''}'']"
    by code_simp
  have d: "deflateSync_two_texts
             [CHR ''{'', CHR 0x22, CHR ''a'', CHR 0x22, CHR '':'', CHR ''2'', CHR '','',
              CHR 0x22, CHR ''b'', CHR 0x22, CHR '':'', CHR ''1'', CHR ''}'']
             [120, 156, 171, 86, 74, 84, 178, 50, 210, 81, 74, 82, 178, 50, 172, 5, 0, 22, 252, 3, 71]"
    by (simp add: deflateSync_two_texts_def)
  have b: "Buffer_toBase64
             [120, 156, 171, 86, 74, 84, 178, 50, 210, 81, 74, 82, 178, 50, 172, 5, 0, 22, 252, 3, 71]
             [101, 74, 121, 114, 86, 107, 112, 85, 115, 106, 76, 83, 85, 85, 112, 83,
              115, 106, 75, 115, 66, 81, 65, 87, 47, 65, 78, 72]"
    by (simp add: Buffer_toBase64_def) (simp add: base64_chars_def)
  have g: "glyph_loop glyphSet_literal
             [101, 74, 121, 114, 86, 107, 112, 85, 115, 106, 76, 83, 85, 85, 112, 83,
              115, 106, 75, 115, 66, 81, 65, 87, 47, 65, 78, 72] []
           = [8706, 275, 250, 8218, 244, 322, 250, 244, 250, 250, 244, 279, 244, 244,
              250, 279, 250, 250, 8218, 250, 8218, 8218, 244, 8218, 322, 244, 8218, 8218]"
    by (simp add: glyph_loop_map glyph_of_def glyphSet_literal_length) (simp add: glyphSet_literal_def)
  from compressToGlyphs.encode
         [of JSON_stringify_object _ _ deflateSync_two_texts _ Buffer_toBase64 _ glyphSet_literal,
          OF s d b]
  show ?thesis
    by (simp only: g)
qed

text \<open>
  Structurally identical objects whose keys are in the same order are the same list of
  members, and so have the same text.
\<close>

lemma same_keys_same_members:
  assumes "distinct (map fst p)" and "distinct (map fst q)" and "set p = set q"
    and "map fst p = map fst q"
  shows "p = q"
  using assms
proof (induction p arbitrary: q)
  case Nil
  then show ?case by simp
next
  case (Cons a p)
  from Cons.prems(4) obtain b q' where q: "q = b # q'" and ab: "fst a = fst b"
    and keys: "map fst p = map fst q'"
    by (cases q) auto
  from Cons.prems(3) q have "a \<in> set (b # q')" by auto
  moreover have "a \<notin> set q'"
  proof
    assume "a \<in> set q'"
    then have "fst a \<in> set (map fst q')" by force
    with Cons.prems(2) q ab show False by simp
  qed
  ultimately have eq: "a = b" by simp
  have "a \<notin> set p"
  proof
    assume "a \<in> set p"
    then have "fst a \<in> set (map fst p)" by force
    with Cons.prems(1) show False by simp
  qed
  with Cons.prems(3) q eq \<open>a \<notin> set q'\<close> have "set p = set q'" by auto
  with Cons.IH [of q'] Cons.prems(1,2) q keys have "p = q'" by simp
  with q eq show ?case by simp
qed

lemma same_order_same_text:
  assumes "structurally_identical p q" and "map fst p = map fst q"
    and "JSON_stringify_object p json"
  shows "JSON_stringify_object q json"
proof -
  from assms(1,2) have "p = q"
    unfolding structurally_identical_def object_members_def
    by (intro same_keys_same_members) simp_all
  with assms(3) show ?thesis by simp
qed

text \<open>
  C9, as amended. The archive encoder is deterministic in the JSON text of the payload:
  any two calls of \<open>compressToGlyphs\<close> on payloads that \<^verbatim>\<open>JSON.stringify\<close> gives
  the same text, which are the payloads with the same values under the same keys in the
  same order, give the same glyph string, for any number of calls, the library calls
  being deterministic for identical input.
\<close>

theorem compressToGlyphs_same_text:
  assumes "deterministic stringify" and "deterministic deflateSync" and "deterministic toBase64"
    and "stringify p json" and "stringify q json"
    and "compressToGlyphs stringify deflateSync toBase64 glyphSet p g1"
    and "compressToGlyphs stringify deflateSync toBase64 glyphSet q g2"
  shows "g1 = g2"
proof -
  from assms(6) obtain j1 d1 b1 where r1: "stringify p j1" "deflateSync j1 d1" "toBase64 d1 b1"
    and g1: "g1 = glyph_loop glyphSet b1 []"
    by (auto elim: compressToGlyphs.cases)
  from assms(7) obtain j2 d2 b2 where r2: "stringify q j2" "deflateSync j2 d2" "toBase64 d2 b2"
    and g2: "g2 = glyph_loop glyphSet b2 []"
    by (auto elim: compressToGlyphs.cases)
  from assms(1,4) r1(1) have "j1 = json" unfolding deterministic_def by blast
  moreover from assms(1,5) r2(1) have "j2 = json" unfolding deterministic_def by blast
  ultimately have "j1 = j2" by simp
  with assms(2) r1(2) r2(2) have "d1 = d2" unfolding deterministic_def by blast
  with assms(3) r1(3) r2(3) have "b1 = b2" unfolding deterministic_def by blast
  with g1 g2 show "g1 = g2" by simp
qed

theorem compressToGlyphs_same_text_witness:
  "deterministic JSON_stringify_object \<and> deterministic deflateSync_two_texts \<and>
   deterministic Buffer_toBase64 \<and>
   JSON_stringify_object [(''b'', 1), (''a'', 2)]
     [CHR ''{'', CHR 0x22, CHR ''b'', CHR 0x22, CHR '':'', CHR ''1'', CHR '','',
      CHR 0x22, CHR ''a'', CHR 0x22, CHR '':'', CHR ''2'', CHR ''}''] \<and>
   compressToGlyphs JSON_stringify_object deflateSync_two_texts Buffer_toBase64 glyphSet_literal
     [(''b'', 1), (''a'', 2)]
     [8706, 275, 250, 8218, 244, 322, 250, 279, 250, 250, 244, 244, 244, 244,
      250, 244, 250, 250, 8218, 316, 8218, 8218, 244, 8218, 322, 244, 8218, 8218] \<and>
   [8706, 275, 250, 8218, 244, 322, 250, 279, 250, 250, 244, 244, 244, 244,
    250, 244, 250, 250, 8218, 316, 8218, 8218, 244, 8218, 322, 244, 8218, 8218]
   = [8706, 275, 250, 8218, 244, 322, 250, 279, 250, 250, 244, 244, 244, 244,
      250, 244, 250, 250, 8218, 316, 8218, 8218, 244, 8218, 322, 244, 8218, (8218::nat)]"
proof -
  have s: "JSON_stringify_object [(''b'', 1), (''a'', 2)]
             [CHR ''{'', CHR 0x22, CHR ''b'', CHR 0x22, CHR '':'', CHR ''1'', CHR '','',
              CHR 0x22, CHR ''a'', CHR 0x22, CHR '':'', CHR ''2'', CHR ''}'']"
    by code_simp
  from compressToGlyphs_same_text
         [OF deterministic_JSON_stringify_object deterministic_deflateSync_two_texts
             deterministic_Buffer_toBase64 s s encode_b1_a2 encode_b1_a2]
    deterministic_JSON_stringify_object deterministic_deflateSync_two_texts
    deterministic_Buffer_toBase64 s encode_b1_a2
  show ?thesis by blast
qed

text \<open>
  C9 as the specification states it fails. The objects \<^verbatim>\<open>{b: 1, a: 2}\<close> and
  \<^verbatim>\<open>{a: 2, b: 1}\<close> are structurally identical, the same members in another order
  of insertion; \<^verbatim>\<open>JSON.stringify\<close> follows that order, and the two glyph strings
  differ (at the eighth glyph, for one).
\<close>

theorem key_order_counterexample:
  "structurally_identical [(''b'', 1), (''a'', 2)] [(''a'', 2), (''b'', 1)] \<and>
   compressToGlyphs JSON_stringify_object deflateSync_two_texts Buffer_toBase64 glyphSet_literal
     [(''b'', 1), (''a'', 2)]
     [8706, 275, 250, 8218, 244, 322, 250, 279, 250, 250, 244, 244, 244, 244,
      250, 244, 250, 250, 8218, 316, 8218, 8218, 244, 8218, 322, 244, 8218, 8218] \<and>
   compressToGlyphs JSON_stringify_object deflateSync_two_texts Buffer_toBase64 glyphSet_literal
     [(''a'', 2), (''b'', 1)]
     [8706, 275, 250, 8218, 244, 322, 250, 244, 250, 250, 244, 279, 244, 244,
      250, 279, 250, 250, 8218, 250, 8218, 8218, 244, 8218, 322, 244, 8218, 8218] \<and>
   [8706, 275, 250, 8218, 244, 322, 250, 279, 250, 250, 244, 244, 244, 244,
    250, 244, 250, 250, 8218, 316, 8218, 8218, 244, 8218, 322, 244, 8218, 8218]
   \<noteq> [8706, 275, 250, 8218, 244, 322, 250, 244, 250, 250, 244, 279, 244, 244,
      250, 279, 250, 250, 8218, 250, 8218, 8218, 244, 8218, 322, 244, 8218, (8218::nat)]"
proof -
  have i: "structurally_identical [(''b'', 1), (''a'', 2)] [(''a'', 2), (''b'', 1)]"
    by (simp add: structurally_identical_def object_members_def insert_commute)
  from i encode_b1_a2 encode_a2_b1 show ?thesis by simp
qed

end
